theory Spec2Isabelle
  imports Main
begin

section \<open>Conversion of an ES|QL response to a GeoJSON feature collection\<close>

text \<open>
  This theory embeds \<^verbatim>\<open>convertToGeoJson\<close> of
  \<^verbatim>\<open>x-pack/plugins/maps/public/classes/sources/esql_source/convert_to_geojson.ts\<close>.
  The function walks the rows of a columnar response, reads the cell of the geometry
  column, parses it as well-known text and, when that works, pushes a feature whose
  properties are the other cells of the row keyed by column name.
\<close>

subsection \<open>Values\<close>

text \<open>
  A cell of a row has the TypeScript type \<^verbatim>\<open>unknown\<close>. The converter applies one
  operation to a cell, the truthiness test \<^verbatim>\<open>!wkt\<close>, and otherwise assigns cells
  to properties or hands them to the parser. Numbers are represented by integers with \<open>JNaN\<close> beside
  them: a number is falsy exactly when it is zero or NaN, and no arithmetic is done on
  cells. Arrays and objects are always truthy.
\<close>

datatype jsval =
    JUndefined
  | JNull
  | JBool bool
  | JNum int
  | JNaN
  | JStr string
  | JArr "jsval list"
  | JObj "(string \<times> jsval) list"

fun truthy :: "jsval \<Rightarrow> bool" where
  "truthy JUndefined = False"
| "truthy JNull = False"
| "truthy (JBool b) = b"
| "truthy (JNum n) = (n \<noteq> 0)"
| "truthy JNaN = False"
| "truthy (JStr s) = (s \<noteq> [])"
| "truthy (JArr xs) = True"
| "truthy (JObj kvs) = True"

text \<open>Reading an array at an index beyond its length gives \<^verbatim>\<open>undefined\<close>.\<close>

definition js_index :: "jsval list \<Rightarrow> nat \<Rightarrow> jsval" where
  "js_index xs i = (if i < length xs then xs ! i else JUndefined)"

subsection \<open>Request and result types\<close>

record column =
  name :: string
  type :: string

record ESQLSearchReponse =
  columns :: "column list"
  "values" :: "jsval list list"

text \<open>
  \<^verbatim>\<open>GeoJsonProperties\<close> is a plain object used as a dictionary. The object
  literal of line 25 has no own properties and the prototype \<^verbatim>\<open>Object.prototype\<close>.
  The record keeps the own properties, \<open>own obj n\<close> being the value stored under the
  name \<open>n\<close>, and the prototype, which an assignment under the name
  \<^verbatim>\<open>__proto__\<close> can replace. A cell that has become the prototype is a plain object
  or an array of the response, whose own prototype chain ends in
  \<^verbatim>\<open>Object.prototype\<close>. The enumeration order of the keys is not part of the model.
\<close>

datatype prototype = ObjectPrototype | NullPrototype | CellPrototype jsval

record GeoJsonProperties =
  own :: "string \<rightharpoonup> jsval"
  proto :: prototype

definition empty_object :: GeoJsonProperties where
  "empty_object = \<lparr>own = Map.empty, proto = ObjectPrototype\<rparr>"

text \<open>
  The accessor \<^verbatim>\<open>__proto__\<close> lives on \<^verbatim>\<open>Object.prototype\<close>. An object
  reaches it through its prototype chain unless the chain is cut by a null prototype or
  an object on the chain has an own data property of that name (an object read from
  JSON with the key \<^verbatim>\<open>__proto__\<close> has one).
\<close>

fun inherits_proto_setter :: "prototype \<Rightarrow> bool" where
  "inherits_proto_setter ObjectPrototype = True"
| "inherits_proto_setter NullPrototype = False"
| "inherits_proto_setter (CellPrototype (JObj kvs)) = (''__proto__'' \<notin> set (map fst kvs))"
| "inherits_proto_setter (CellPrototype v) = True"

text \<open>
  The setter of \<^verbatim>\<open>__proto__\<close>: an object or \<^verbatim>\<open>null\<close> becomes the prototype of
  the receiver, any other value is ignored. No own property is created.
\<close>

fun proto_setter :: "GeoJsonProperties \<Rightarrow> jsval \<Rightarrow> GeoJsonProperties" where
  "proto_setter obj (JObj kvs) = obj\<lparr>proto := CellPrototype (JObj kvs)\<rparr>"
| "proto_setter obj (JArr xs) = obj\<lparr>proto := CellPrototype (JArr xs)\<rparr>"
| "proto_setter obj JNull = obj\<lparr>proto := NullPrototype\<rparr>"
| "proto_setter obj v = obj"

text \<open>
  The assignment \<^verbatim>\<open>obj[k] = v\<close> of line 31. An own property of the name is
  overwritten. Otherwise the name is looked up along the prototype chain: only for
  \<^verbatim>\<open>__proto__\<close> can a setter be found there, and then the setter runs; in every
  other case an own property is created.
\<close>

definition js_assign :: "GeoJsonProperties \<Rightarrow> string \<Rightarrow> jsval \<Rightarrow> GeoJsonProperties" where
  "js_assign obj k v =
     (if k = ''__proto__'' \<and> own obj k = None \<and> inherits_proto_setter (proto obj)
      then proto_setter obj v
      else obj\<lparr>own := (own obj)(k \<mapsto> v)\<rparr>)"

text \<open>
  The tags \<^verbatim>\<open>type: 'Feature'\<close> and \<^verbatim>\<open>type: 'FeatureCollection'\<close> are
  constants and are carried by the record types.
\<close>

record Feature =
  geometry :: jsval
  properties :: GeoJsonProperties

record FeatureCollection =
  features :: "Feature list"

text \<open>
  What can be thrown while the converter runs: the error of the geometry-column
  locator, a fault of the WKT parser, and the \<^verbatim>\<open>TypeError\<close> of reading
  \<^verbatim>\<open>.name\<close> of \<^verbatim>\<open>undefined\<close>.
\<close>

datatype error = ColumnResolutionError | ParseFault | TypeError

subsection \<open>The converter\<close>

text \<open>
  Lines 25 to 32: the loop over the cells of one row, started in \<open>try_block\<close> with
  the empty object of line 25. The bound is the length of the row. At an index at or
  beyond the number of columns \<^verbatim>\<open>resp.columns[j]\<close> is
  \<^verbatim>\<open>undefined\<close> and reading its name throws.
\<close>

function properties_loop ::
  "column list \<Rightarrow> nat \<Rightarrow> jsval list \<Rightarrow> nat \<Rightarrow> GeoJsonProperties \<Rightarrow> error + GeoJsonProperties"
where
  "properties_loop cols geometryIndex hit j props =
     (if j < length hit then
        (if j = geometryIndex then properties_loop cols geometryIndex hit (j + 1) props
         else if j < length cols then
           properties_loop cols geometryIndex hit (j + 1) (js_assign props (name (cols ! j)) (hit ! j))
         else Inl TypeError)
      else Inr props)"
  by pat_completeness auto
termination
  by (relation "measure (\<lambda>(cols, geometryIndex, hit, j, props). length hit - j)") auto

declare properties_loop.simps [simp del]

text \<open>
  Lines 24 to 37: the body of the \<^verbatim>\<open>try\<close> block. The parser comes from the package
  \<^verbatim>\<open>wellknown\<close> and is a parameter: it returns a geometry or throws. Whatever it
  returns is stored as the geometry of the feature.
\<close>

definition try_block ::
  "(jsval \<Rightarrow> error + jsval) \<Rightarrow> column list \<Rightarrow> nat \<Rightarrow> jsval list \<Rightarrow> jsval \<Rightarrow> error + Feature"
where
  "try_block parse cols geometryIndex hit wkt =
     (case parse wkt of
        Inl e \<Rightarrow> Inl e
      | Inr g \<Rightarrow>
          (case properties_loop cols geometryIndex hit 0 empty_object of
             Inl e \<Rightarrow> Inl e
           | Inr props \<Rightarrow> Inr \<lparr>geometry = g, properties = props\<rparr>))"

text \<open>
  Lines 17 to 41: the loop over the rows. A falsy geometry cell continues with the next
  row; anything thrown inside the \<^verbatim>\<open>try\<close> block is caught by an empty handler.
\<close>

function rows_loop ::
  "(jsval \<Rightarrow> error + jsval) \<Rightarrow> column list \<Rightarrow> nat \<Rightarrow> jsval list list \<Rightarrow> nat \<Rightarrow> Feature list
     \<Rightarrow> Feature list"
where
  "rows_loop parse cols geometryIndex vals i feats =
     (if i < length vals then
        (let hit = vals ! i;
             wkt = js_index hit geometryIndex
         in if \<not> truthy wkt then rows_loop parse cols geometryIndex vals (i + 1) feats
            else (case try_block parse cols geometryIndex hit wkt of
                    Inl parseError \<Rightarrow> rows_loop parse cols geometryIndex vals (i + 1) feats
                  | Inr f \<Rightarrow> rows_loop parse cols geometryIndex vals (i + 1) (feats @ [f])))
      else feats)"
  by pat_completeness auto
termination
  by (relation "measure (\<lambda>(parse, cols, geometryIndex, vals, i, feats). length vals - i)") auto

declare rows_loop.simps [simp del]

text \<open>
  Lines 14 to 47. The locator \<^verbatim>\<open>getGeometryColumnIndex\<close> lives in
  \<^verbatim>\<open>./esql_utils\<close> and is a parameter here. It is called once, outside the
  \<^verbatim>\<open>try\<close> block, so what it throws leaves the function.
\<close>

definition convertToGeoJson ::
  "(column list \<Rightarrow> error + nat) \<Rightarrow> (jsval \<Rightarrow> error + jsval) \<Rightarrow> ESQLSearchReponse
     \<Rightarrow> error + FeatureCollection"
where
  "convertToGeoJson getGeometryColumnIndex parse resp =
     (case getGeometryColumnIndex (columns resp) of
        Inl e \<Rightarrow> Inl e
      | Inr geometryIndex \<Rightarrow>
          Inr \<lparr>features = rows_loop parse (columns resp) geometryIndex (values resp) 0 []\<rparr>)"

subsection \<open>The geometry-column locator\<close>

text \<open>
  Modelled from the spec: the helper \<^verbatim>\<open>getGeometryColumnIndex\<close> of
  \<^verbatim>\<open>./esql_utils\<close> is not part of the sources at hand. The specification
  describes it as \<^verbatim>\<open>locateGeometryColumn(columns) -> index\<close>, which returns the
  single index whose column is recognised as the geometry column and fails with a
  \<^verbatim>\<open>ColumnResolutionError\<close> if zero or more than one candidate column matches the
  expected geometry-column naming convention. The convention itself is not given, so it
  is the parameter \<open>isGeometryName\<close>, a test on the column name.
\<close>

definition locateGeometryColumn :: "(string \<Rightarrow> bool) \<Rightarrow> column list \<Rightarrow> error + nat" where
  "locateGeometryColumn isGeometryName cols =
     (case filter (\<lambda>i. isGeometryName (name (cols ! i))) [0..<length cols] of
        [i] \<Rightarrow> Inr i
      | _ \<Rightarrow> Inl ColumnResolutionError)"

subsection \<open>Notions used to state the properties\<close>

text \<open>
  What one pass of the row loop adds for the row \<open>hit\<close>: nothing when the geometry
  cell is falsy or when the \<^verbatim>\<open>try\<close> block throws, the pushed feature otherwise.
\<close>

definition row_feature ::
  "(jsval \<Rightarrow> error + jsval) \<Rightarrow> column list \<Rightarrow> nat \<Rightarrow> jsval list \<Rightarrow> Feature option"
where
  "row_feature parse cols geometryIndex hit =
     (let wkt = js_index hit geometryIndex
      in if \<not> truthy wkt then None
         else (case try_block parse cols geometryIndex hit wkt of
                 Inl parseError \<Rightarrow> None
               | Inr f \<Rightarrow> Some f))"

text \<open>The indices of the rows that add a feature, in increasing order.\<close>

definition emitted_rows ::
  "(jsval \<Rightarrow> error + jsval) \<Rightarrow> column list \<Rightarrow> nat \<Rightarrow> jsval list list \<Rightarrow> nat list"
where
  "emitted_rows parse cols geometryIndex vals =
     filter (\<lambda>i. row_feature parse cols geometryIndex (vals ! i) \<noteq> None) [0..<length vals]"

text \<open>
  The indices of the cells of a row, the geometry cell left out, whose column carries
  the name \<open>n\<close>, in increasing order.
\<close>

definition named_cells :: "column list \<Rightarrow> nat \<Rightarrow> jsval list \<Rightarrow> string \<Rightarrow> nat list" where
  "named_cells cols geometryIndex hit n =
     filter (\<lambda>k. k \<noteq> geometryIndex \<and> name (cols ! k) = n) [0..<length hit]"

subsection \<open>Collaborators for the worked examples\<close>

text \<open>
  The closed examples below need a concrete parser and a concrete naming convention.
  The parser stands in for \<^verbatim>\<open>wellknown\<close> on three kinds of input: it reads one
  point, returns \<^verbatim>\<open>null\<close> without throwing on one string, and throws on
  everything else. The convention recognises the column called \<^verbatim>\<open>geom\<close>.
\<close>

definition example_parse :: "jsval \<Rightarrow> error + jsval" where
  "example_parse v =
     (if v = JStr ''POINT (1 2)'' then
        Inr (JObj [(''type'', JStr ''Point''), (''coordinates'', JArr [JNum 1, JNum 2])])
      else if v = JStr ''POINT EMPTY'' then Inr JNull
      else Inl ParseFault)"

definition example_geometry_name :: "string \<Rightarrow> bool" where
  "example_geometry_name n = (n = ''geom'')"

section \<open>The loops in closed form\<close>

lemma rows_loop_map_filter:
  "rows_loop parse cols gi vals i feats =
     feats @ List.map_filter (row_feature parse cols gi) (drop i vals)"
proof (induction parse cols gi vals i feats rule: rows_loop.induct)
  case (1 parse cols gi vals i feats)
  show ?case
  proof (cases "i < length vals")
    case False
    then show ?thesis
      by (subst rows_loop.simps) simp
  next
    case True
    then have d: "drop i vals = vals ! i # drop (i + 1) vals"
      by (simp add: Cons_nth_drop_Suc)
    show ?thesis
    proof (cases "truthy (js_index (vals ! i) gi)")
      case False
      then have "rows_loop parse cols gi vals i feats = rows_loop parse cols gi vals (i + 1) feats"
        using True by (subst rows_loop.simps) (simp add: Let_def)
      also have "\<dots> = feats @ List.map_filter (row_feature parse cols gi) (drop (i + 1) vals)"
        using 1(1) [OF True refl refl] False by simp
      also have "\<dots> = feats @ List.map_filter (row_feature parse cols gi) (drop i vals)"
        using False by (simp add: d row_feature_def Let_def)
      finally show ?thesis .
    next
      case t: True
      show ?thesis
      proof (cases "try_block parse cols gi (vals ! i) (js_index (vals ! i) gi)")
        case (Inl e)
        then have "rows_loop parse cols gi vals i feats = rows_loop parse cols gi vals (i + 1) feats"
          using True t by (subst rows_loop.simps) (simp add: Let_def)
        also have "\<dots> = feats @ List.map_filter (row_feature parse cols gi) (drop (i + 1) vals)"
          using 1(2) [OF True refl refl _ Inl] t by simp
        also have "\<dots> = feats @ List.map_filter (row_feature parse cols gi) (drop i vals)"
          using t Inl by (simp add: d row_feature_def Let_def)
        finally show ?thesis .
      next
        case (Inr f)
        then have "rows_loop parse cols gi vals i feats
            = rows_loop parse cols gi vals (i + 1) (feats @ [f])"
          using True t by (subst rows_loop.simps) (simp add: Let_def)
        also have "\<dots> = (feats @ [f]) @ List.map_filter (row_feature parse cols gi) (drop (i + 1) vals)"
          using 1(3) [OF True refl refl _ Inr] t by simp
        also have "\<dots> = feats @ List.map_filter (row_feature parse cols gi) (drop i vals)"
          using t Inr by (simp add: d row_feature_def Let_def)
        finally show ?thesis .
      qed
    qed
  qed
qed

lemma own_empty_object: "own empty_object n = None"
  by (simp add: empty_object_def)

lemma own_proto_setter: "own (proto_setter obj v) = own obj"
  by (cases v) simp_all

lemma own_js_assign:
  "n \<noteq> ''__proto__'' \<Longrightarrow> own (js_assign obj k v) n = (if k = n then Some v else own obj n)"
  by (auto simp: js_assign_def own_proto_setter)

lemma own_js_assign_source:
  "own (js_assign obj k v) n = Some x \<Longrightarrow> own obj n = Some x \<or> (k = n \<and> x = v)"
  by (auto simp: js_assign_def own_proto_setter split: if_splits)

lemma properties_loop_lookup:
  "(\<forall>k. j \<le> k \<and> k < length hit \<and> k \<noteq> gi \<longrightarrow> k < length cols) \<Longrightarrow>
   \<exists>props'. properties_loop cols gi hit j props = Inr props' \<and>
     (\<forall>n. n \<noteq> ''__proto__'' \<longrightarrow> own props' n =
        (case filter (\<lambda>k. k \<noteq> gi \<and> name (cols ! k) = n) [j..<length hit] of
           [] \<Rightarrow> own props n
         | ks \<Rightarrow> Some (hit ! last ks)))"
proof (induction cols gi hit j props rule: properties_loop.induct)
  case (1 cols gi hit j props)
  show ?case
  proof (cases "j < length hit")
    case False
    then show ?thesis
      by (subst properties_loop.simps) simp
  next
    case True
    then have u: "[j..<length hit] = j # [j + 1..<length hit]"
      by (simp add: upt_conv_Cons)
    have b: "\<forall>k. j + 1 \<le> k \<and> k < length hit \<and> k \<noteq> gi \<longrightarrow> k < length cols"
      using 1(3) by auto
    show ?thesis
    proof (cases "j = gi")
      case jg: True
      from 1(1) [OF True jg b] obtain p where
        p: "properties_loop cols gi hit (j + 1) props = Inr p"
           "\<forall>n. n \<noteq> ''__proto__'' \<longrightarrow> own p n =
              (case filter (\<lambda>k. k \<noteq> gi \<and> name (cols ! k) = n) [j + 1..<length hit] of
                 [] \<Rightarrow> own props n | ks \<Rightarrow> Some (hit ! last ks))"
        by blast
      have "properties_loop cols gi hit j props = Inr p"
        using True jg p(1) by (subst properties_loop.simps) simp
      moreover have "filter (\<lambda>k. k \<noteq> gi \<and> name (cols ! k) = n) [j..<length hit]
          = filter (\<lambda>k. k \<noteq> gi \<and> name (cols ! k) = n) [j + 1..<length hit]" for n
        using jg by (subst u) simp
      ultimately show ?thesis using p(2) by simp
    next
      case jg: False
      with True 1(3) have jc: "j < length cols" by auto
      let ?props1 = "js_assign props (name (cols ! j)) (hit ! j)"
      from 1(2) [OF True jg jc b] obtain p where
        p: "properties_loop cols gi hit (j + 1) ?props1 = Inr p"
           "\<forall>n. n \<noteq> ''__proto__'' \<longrightarrow> own p n =
              (case filter (\<lambda>k. k \<noteq> gi \<and> name (cols ! k) = n) [j + 1..<length hit] of
                 [] \<Rightarrow> own ?props1 n | ks \<Rightarrow> Some (hit ! last ks))"
        by blast
      have r: "properties_loop cols gi hit j props = Inr p"
        using True jg jc p(1) by (subst properties_loop.simps) simp
      have "own p n = (case filter (\<lambda>k. k \<noteq> gi \<and> name (cols ! k) = n) [j..<length hit] of
               [] \<Rightarrow> own props n | ks \<Rightarrow> Some (hit ! last ks))"
        if n: "n \<noteq> ''__proto__''" for n
        using p(2) jg n by (subst u) (simp add: own_js_assign split: list.splits)
      with r show ?thesis by simp
    qed
  qed
qed

lemma properties_loop_source:
  "properties_loop cols gi hit j props = Inr props' \<Longrightarrow> own props' n = Some x \<Longrightarrow>
   own props n = Some x \<or>
   (\<exists>k. j \<le> k \<and> k < length hit \<and> k \<noteq> gi \<and> name (cols ! k) = n \<and> x = hit ! k)"
proof (induction cols gi hit j props rule: properties_loop.induct)
  case (1 cols gi hit j props)
  show ?case
  proof (cases "j < length hit")
    case False
    with 1(3,4) show ?thesis
      by (subst (asm) properties_loop.simps) simp
  next
    case True
    show ?thesis
    proof (cases "j = gi")
      case jg: True
      have "properties_loop cols gi hit j props = properties_loop cols gi hit (j + 1) props"
        using True jg by (subst properties_loop.simps) simp
      with 1(3) have "properties_loop cols gi hit (j + 1) props = Inr props'"
        by simp
      from 1(1) [OF True jg this 1(4)] show ?thesis
        by (auto intro: Suc_leD)
    next
      case jg: False
      show ?thesis
      proof (cases "j < length cols")
        case False
        have "properties_loop cols gi hit j props = Inl TypeError"
          using True jg False by (subst properties_loop.simps) simp
        with 1(3) show ?thesis by simp
      next
        case jc: True
        let ?props1 = "js_assign props (name (cols ! j)) (hit ! j)"
        have "properties_loop cols gi hit j props = properties_loop cols gi hit (j + 1) ?props1"
          using True jg jc by (subst properties_loop.simps) simp
        with 1(3) have "properties_loop cols gi hit (j + 1) ?props1 = Inr props'"
          by simp
        from 1(2) [OF True jg jc this 1(4)]
        have "own ?props1 n = Some x \<or>
          (\<exists>k. j + 1 \<le> k \<and> k < length hit \<and> k \<noteq> gi \<and> name (cols ! k) = n \<and> x = hit ! k)" .
        then show ?thesis
        proof
          assume "own ?props1 n = Some x"
          from own_js_assign_source [OF this] True jg show ?thesis
            by auto
        next
          assume "\<exists>k. j + 1 \<le> k \<and> k < length hit \<and> k \<noteq> gi \<and> name (cols ! k) = n \<and> x = hit ! k"
          then show ?thesis by (auto intro: Suc_leD)
        qed
      qed
    qed
  qed
qed

lemma properties_loop_out_of_bounds:
  "j \<le> k \<Longrightarrow> k < length hit \<Longrightarrow> k \<noteq> gi \<Longrightarrow> length cols \<le> k \<Longrightarrow>
   properties_loop cols gi hit j props = Inl TypeError"
proof (induction cols gi hit j props rule: properties_loop.induct)
  case (1 cols gi hit j props)
  from 1(3,4) have jl: "j < length hit" by simp
  show ?case
  proof (cases "j = k")
    case True
    with 1 show ?thesis by (subst properties_loop.simps) simp
  next
    case False
    with 1(3) have s: "j + 1 \<le> k" by simp
    show ?thesis
    proof (cases "j = gi")
      case True
      have "properties_loop cols gi hit j props = properties_loop cols gi hit (j + 1) props"
        using jl True by (subst properties_loop.simps) simp
      also have "\<dots> = Inl TypeError"
        by (rule 1(1) [OF jl True s 1(4) 1(5) 1(6)])
      finally show ?thesis .
    next
      case jg: False
      show ?thesis
      proof (cases "j < length cols")
        case True
        have "properties_loop cols gi hit j props
            = properties_loop cols gi hit (j + 1) (js_assign props (name (cols ! j)) (hit ! j))"
          using jl jg True by (subst properties_loop.simps) simp
        also have "\<dots> = Inl TypeError"
          by (rule 1(2) [OF jl jg True s 1(4) 1(5) 1(6)])
        finally show ?thesis .
      next
        case False
        with jl jg show ?thesis by (subst properties_loop.simps) simp
      qed
    qed
  qed
qed

section \<open>Rows and features\<close>

lemma convert_features:
  assumes "getGeometryColumnIndex (columns resp) = Inr gi"
  shows "convertToGeoJson getGeometryColumnIndex parse resp =
           Inr \<lparr>features = List.map_filter (row_feature parse (columns resp) gi) (values resp)\<rparr>"
  using assms by (simp add: convertToGeoJson_def rows_loop_map_filter)

lemma convert_error:
  "(convertToGeoJson getGeometryColumnIndex parse resp = Inl e) =
     (getGeometryColumnIndex (columns resp) = Inl e)"
  by (simp add: convertToGeoJson_def split: sum.splits)

lemma map_filter_nth:
  "List.map_filter f xs =
     map (\<lambda>i. the (f (xs ! i))) (filter (\<lambda>i. f (xs ! i) \<noteq> None) [0..<length xs])"
proof -
  have "List.map_filter f xs = List.map_filter f (map ((!) xs) [0..<length xs])"
    by (simp add: map_nth)
  also have "\<dots> = map (\<lambda>i. the (f (xs ! i))) (filter (\<lambda>i. f (xs ! i) \<noteq> None) [0..<length xs])"
    by (simp add: List.map_filter_def filter_map comp_def)
  finally show ?thesis .
qed

lemma features_emitted_rows:
  "List.map_filter (row_feature parse cols gi) vals =
     map (\<lambda>i. the (row_feature parse cols gi (vals ! i))) (emitted_rows parse cols gi vals)"
  by (simp add: emitted_rows_def map_filter_nth)

lemma emitted_rows_set:
  "set (emitted_rows parse cols gi vals) =
     {i. i < length vals \<and> row_feature parse cols gi (vals ! i) \<noteq> None}"
  by (auto simp: emitted_rows_def)

lemma emitted_rows_sorted: "sorted_wrt (<) (emitted_rows parse cols gi vals)"
  by (simp add: emitted_rows_def sorted_wrt_filter)

lemma emitted_row_feature:
  assumes "k < length (emitted_rows parse cols gi vals)"
  shows "emitted_rows parse cols gi vals ! k < length vals"
    and "row_feature parse cols gi (vals ! (emitted_rows parse cols gi vals ! k)) =
           Some (List.map_filter (row_feature parse cols gi) vals ! k)"
proof -
  let ?i = "emitted_rows parse cols gi vals ! k"
  from assms have "?i \<in> set (emitted_rows parse cols gi vals)" by simp
  then have i: "?i < length vals" "row_feature parse cols gi (vals ! ?i) \<noteq> None"
    by (simp_all add: emitted_rows_set)
  show "?i < length vals" by (rule i(1))
  from assms have "List.map_filter (row_feature parse cols gi) vals ! k
      = the (row_feature parse cols gi (vals ! ?i))"
    by (simp add: features_emitted_rows)
  with i(2) show "row_feature parse cols gi (vals ! ?i) =
           Some (List.map_filter (row_feature parse cols gi) vals ! k)"
    by auto
qed

lemma emitted_row_index:
  assumes "i < length vals" and "row_feature parse cols gi (vals ! i) = Some f"
  shows "\<exists>k < length (emitted_rows parse cols gi vals).
           emitted_rows parse cols gi vals ! k = i \<and>
           List.map_filter (row_feature parse cols gi) vals ! k = f"
proof -
  from assms have "i \<in> set (emitted_rows parse cols gi vals)"
    by (simp add: emitted_rows_set)
  then obtain k where k: "k < length (emitted_rows parse cols gi vals)"
      "emitted_rows parse cols gi vals ! k = i"
    by (auto simp: in_set_conv_nth)
  from emitted_row_feature(2) [OF k(1)] k(2) assms(2)
  have "List.map_filter (row_feature parse cols gi) vals ! k = f" by simp
  with k show ?thesis by blast
qed

section \<open>One row\<close>

lemma properties_loop_Inr_iff:
  "(\<exists>props'. properties_loop cols gi hit j props = Inr props') =
     (\<forall>k. j \<le> k \<and> k < length hit \<and> k \<noteq> gi \<longrightarrow> k < length cols)"
proof
  assume "\<exists>props'. properties_loop cols gi hit j props = Inr props'"
  then obtain p where p: "properties_loop cols gi hit j props = Inr p" ..
  show "\<forall>k. j \<le> k \<and> k < length hit \<and> k \<noteq> gi \<longrightarrow> k < length cols"
  proof (intro allI impI, elim conjE)
    fix k assume "j \<le> k" "k < length hit" "k \<noteq> gi"
    show "k < length cols"
    proof (rule ccontr)
      assume "\<not> k < length cols"
      then have "properties_loop cols gi hit j props = Inl TypeError"
        using \<open>j \<le> k\<close> \<open>k < length hit\<close> \<open>k \<noteq> gi\<close>
        by (intro properties_loop_out_of_bounds [of j k]) simp_all
      with p show False by simp
    qed
  qed
next
  assume "\<forall>k. j \<le> k \<and> k < length hit \<and> k \<noteq> gi \<longrightarrow> k < length cols"
  from properties_loop_lookup [OF this] show "\<exists>props'. properties_loop cols gi hit j props = Inr props'"
    by blast
qed

lemma properties_loop_error:
  "properties_loop cols gi hit j props = Inl e \<Longrightarrow> e = TypeError"
proof (cases "\<forall>k. j \<le> k \<and> k < length hit \<and> k \<noteq> gi \<longrightarrow> k < length cols")
  case True
  assume "properties_loop cols gi hit j props = Inl e"
  with properties_loop_lookup [OF True, of props] show ?thesis by auto
next
  case False
  assume e: "properties_loop cols gi hit j props = Inl e"
  from False obtain k where "j \<le> k" "k < length hit" "k \<noteq> gi" "length cols \<le> k"
    by (auto simp: not_less)
  from properties_loop_out_of_bounds [OF this] e show ?thesis by simp
qed

lemma row_properties:
  assumes "properties_loop cols gi hit 0 empty_object = Inr props" and "n \<noteq> ''__proto__''"
  shows "own props n =
           (case named_cells cols gi hit n of [] \<Rightarrow> None | ks \<Rightarrow> Some (hit ! last ks))"
proof -
  from assms(1) have "\<forall>k. 0 \<le> k \<and> k < length hit \<and> k \<noteq> gi \<longrightarrow> k < length cols"
    using properties_loop_Inr_iff [of cols gi hit 0 empty_object] by blast
  from properties_loop_lookup [OF this, of empty_object] assms show ?thesis
    by (auto simp: named_cells_def own_empty_object split: list.splits)
qed

lemma row_properties_source:
  assumes "properties_loop cols gi hit 0 empty_object = Inr props" and "own props n = Some x"
  shows "\<exists>k<length hit. k \<noteq> gi \<and> name (cols ! k) = n \<and> x = hit ! k"
  using properties_loop_source [OF assms] by (auto simp: own_empty_object)

lemma row_feature_Some:
  "(row_feature parse cols gi hit = Some f) =
     (truthy (js_index hit gi) \<and>
      (\<exists>g props. parse (js_index hit gi) = Inr g \<and>
         properties_loop cols gi hit 0 empty_object = Inr props \<and>
         f = \<lparr>geometry = g, properties = props\<rparr>))"
  by (auto simp: row_feature_def try_block_def Let_def split: sum.splits)

lemma row_feature_None:
  "(row_feature parse cols gi hit = None) =
     (\<not> truthy (js_index hit gi) \<or> isl (parse (js_index hit gi)) \<or>
      isl (properties_loop cols gi hit 0 empty_object))"
  by (auto simp: row_feature_def try_block_def Let_def split: sum.splits)

lemma row_feature_properties:
  assumes "row_feature parse cols gi hit = Some f" and "n \<noteq> ''__proto__''"
  shows "own (properties f) n =
           (case named_cells cols gi hit n of [] \<Rightarrow> None | ks \<Rightarrow> Some (hit ! last ks))"
proof -
  from assms(1) obtain g props where
    "properties_loop cols gi hit 0 empty_object = Inr props" "f = \<lparr>geometry = g, properties = props\<rparr>"
    by (auto simp: row_feature_Some)
  with row_properties [of cols gi hit props n] assms(2) show ?thesis by simp
qed

lemma row_feature_source:
  assumes "row_feature parse cols gi hit = Some f" and "own (properties f) n = Some x"
  shows "\<exists>k<length hit. k \<noteq> gi \<and> name (cols ! k) = n \<and> x = hit ! k"
proof -
  from assms(1) obtain g props where
    "properties_loop cols gi hit 0 empty_object = Inr props" "f = \<lparr>geometry = g, properties = props\<rparr>"
    by (auto simp: row_feature_Some)
  with row_properties_source [of cols gi hit props n x] assms(2) show ?thesis by simp
qed

lemma row_feature_in_bounds:
  assumes "row_feature parse cols gi hit = Some f" and "k < length hit" and "k \<noteq> gi"
  shows "k < length cols"
proof -
  from assms(1) have "\<exists>props. properties_loop cols gi hit 0 empty_object = Inr props"
    by (auto simp: row_feature_Some)
  with assms(2,3) show ?thesis
    by (simp add: properties_loop_Inr_iff)
qed

lemma sorted_le_last: "sorted xs \<Longrightarrow> (x::nat) \<in> set xs \<Longrightarrow> x \<le> last xs"
  by (induction xs) auto

lemma named_cells_member:
  "(k \<in> set (named_cells cols gi hit n)) = (k < length hit \<and> k \<noteq> gi \<and> name (cols ! k) = n)"
  by (auto simp: named_cells_def)

lemma named_cells_last:
  assumes "named_cells cols gi hit n \<noteq> []"
  shows "last (named_cells cols gi hit n) < length hit"
    and "last (named_cells cols gi hit n) \<noteq> gi"
    and "name (cols ! last (named_cells cols gi hit n)) = n"
    and "k < length hit \<Longrightarrow> k \<noteq> gi \<Longrightarrow> name (cols ! k) = n \<Longrightarrow> k \<le> last (named_cells cols gi hit n)"
proof -
  from assms have "last (named_cells cols gi hit n) \<in> set (named_cells cols gi hit n)"
    by simp
  then show "last (named_cells cols gi hit n) < length hit"
    and "last (named_cells cols gi hit n) \<noteq> gi"
    and "name (cols ! last (named_cells cols gi hit n)) = n"
    by (simp_all add: named_cells_member)
  have s: "sorted (named_cells cols gi hit n)"
    by (simp add: named_cells_def sorted_filter [where f = "\<lambda>x. x", simplified])
  assume "k < length hit" "k \<noteq> gi" "name (cols ! k) = n"
  then have "k \<in> set (named_cells cols gi hit n)"
    by (simp add: named_cells_member)
  with s show "k \<le> last (named_cells cols gi hit n)"
    by (rule sorted_le_last)
qed

section \<open>Auxiliary facts about lists and the locator\<close>

lemma length_filter_eq_iff: "(length (filter P xs) = length xs) = (\<forall>x\<in>set xs. P x)"
proof
  assume e: "length (filter P xs) = length xs"
  show "\<forall>x\<in>set xs. P x"
  proof
    fix x assume "x \<in> set xs"
    show "P x"
    proof (rule ccontr)
      assume "\<not> P x"
      with \<open>x \<in> set xs\<close> have "length (filter P xs) < length xs"
        by (rule length_filter_less)
      with e show False by simp
    qed
  qed
next
  assume "\<forall>x\<in>set xs. P x"
  then show "length (filter P xs) = length xs" by simp
qed

lemma map_filter_skip:
  "f x = None \<Longrightarrow> List.map_filter f (pre @ x # post) = List.map_filter f (pre @ post)"
  by (simp add: List.map_filter_def)

lemma locate_count:
  "length (filter (\<lambda>i. isGeometryName (name (cols ! i))) [0..<length cols]) =
   length (filter (\<lambda>c. isGeometryName (name c)) cols)"
proof -
  have "length (filter (\<lambda>c. isGeometryName (name c)) (map ((!) cols) [0..<length cols])) =
        length (filter (\<lambda>i. isGeometryName (name (cols ! i))) [0..<length cols])"
    by (simp only: length_filter_map comp_def)
  then show ?thesis by (simp add: map_nth)
qed

lemma locate_Inl:
  "(locateGeometryColumn isGeometryName cols = Inl e) =
     (e = ColumnResolutionError \<and> length (filter (\<lambda>c. isGeometryName (name c)) cols) \<noteq> 1)"
proof -
  let ?is = "filter (\<lambda>i. isGeometryName (name (cols ! i))) [0..<length cols]"
  have "(locateGeometryColumn isGeometryName cols = Inl e) =
          (e = ColumnResolutionError \<and> length ?is \<noteq> 1)"
    by (auto simp: locateGeometryColumn_def split: list.splits)
  then show ?thesis by (simp only: locate_count)
qed

lemma locate_Inr:
  "(locateGeometryColumn isGeometryName cols = Inr gi) =
     (filter (\<lambda>i. isGeometryName (name (cols ! i))) [0..<length cols] = [gi])"
  by (auto simp: locateGeometryColumn_def split: list.splits)

lemma locate_unique:
  assumes "locateGeometryColumn isGeometryName cols = Inr gi"
  shows "gi < length cols" and "isGeometryName (name (cols ! gi))"
    and "k < length cols \<Longrightarrow> isGeometryName (name (cols ! k)) \<Longrightarrow> k = gi"
proof -
  let ?is = "filter (\<lambda>i. isGeometryName (name (cols ! i))) [0..<length cols]"
  from assms have e: "?is = [gi]" by (simp only: locate_Inr)
  then have "gi \<in> set ?is" by simp
  then show "gi < length cols" and "isGeometryName (name (cols ! gi))" by simp_all
  assume "k < length cols" "isGeometryName (name (cols ! k))"
  then have "k \<in> set ?is" by simp
  with e show "k = gi" by simp
qed

section \<open>From the output back to the rows\<close>

lemma convert_source_row:
  assumes "getGeometryColumnIndex (columns resp) = Inr gi"
    and "convertToGeoJson getGeometryColumnIndex parse resp = Inr fc"
    and "k < length (features fc)"
    and "hit = values resp ! (emitted_rows parse (columns resp) gi (values resp) ! k)"
  shows "hit \<in> set (values resp)"
    and "row_feature parse (columns resp) gi hit = Some (features fc ! k)"
proof -
  from convert_features [of getGeometryColumnIndex resp gi parse] assms(1,2)
  have f: "features fc = List.map_filter (row_feature parse (columns resp) gi) (values resp)"
    by simp
  with assms(3) have k: "k < length (emitted_rows parse (columns resp) gi (values resp))"
    by (simp add: features_emitted_rows)
  from emitted_row_feature(1) [OF k] assms(4) show "hit \<in> set (values resp)"
    by simp
  from emitted_row_feature(2) [OF k] assms(4) f
  show "row_feature parse (columns resp) gi hit = Some (features fc ! k)"
    by simp
qed

lemma convert_row_emitted:
  assumes "getGeometryColumnIndex (columns resp) = Inr gi"
    and "i < length (values resp)"
    and "row_feature parse (columns resp) gi (values resp ! i) = Some f"
  shows "\<exists>fc k. convertToGeoJson getGeometryColumnIndex parse resp = Inr fc \<and>
           k < length (features fc) \<and>
           emitted_rows parse (columns resp) gi (values resp) ! k = i \<and>
           features fc ! k = f"
proof -
  let ?fc = "\<lparr>features = List.map_filter (row_feature parse (columns resp) gi) (values resp)\<rparr>"
  have c: "convertToGeoJson getGeometryColumnIndex parse resp = Inr ?fc"
    using assms(1) by (rule convert_features)
  from emitted_row_index [OF assms(2,3)] obtain k where
    "k < length (emitted_rows parse (columns resp) gi (values resp))"
    "emitted_rows parse (columns resp) gi (values resp) ! k = i"
    "features ?fc ! k = f"
    by auto
  moreover from this(1) have "k < length (features ?fc)"
    by (simp add: features_emitted_rows)
  ultimately show ?thesis using c by blast
qed

lemma row_feature_parse_irrelevant:
  assumes "\<not> truthy v"
  shows "row_feature (parse(v := r)) cols gi row = row_feature parse cols gi row"
proof (cases "js_index row gi = v")
  case True
  with assms show ?thesis by (simp add: row_feature_def)
next
  case False
  then show ?thesis by (simp add: row_feature_def try_block_def Let_def)
qed

lemma short_row_properties_loop:
  assumes "length hit \<le> length cols"
  shows "\<exists>props'. properties_loop cols gi hit j props = Inr props'"
proof -
  from assms have "\<forall>k. j \<le> k \<and> k < length hit \<and> k \<noteq> gi \<longrightarrow> k < length cols"
    by auto
  then show ?thesis by (simp only: properties_loop_Inr_iff)
qed

lemma row_feature_keys:
  assumes "row_feature parse cols gi hit = Some f" and "n \<noteq> ''__proto__''"
  shows "(own (properties f) n \<noteq> None) = (\<exists>j<length hit. j \<noteq> gi \<and> name (cols ! j) = n)"
proof -
  have "(named_cells cols gi hit n \<noteq> []) = (\<exists>j. j \<in> set (named_cells cols gi hit n))"
    by (cases "named_cells cols gi hit n") auto
  also have "\<dots> = (\<exists>j<length hit. j \<noteq> gi \<and> name (cols ! j) = n)"
    by (simp only: named_cells_member)
  finally have "(named_cells cols gi hit n \<noteq> []) = (\<exists>j<length hit. j \<noteq> gi \<and> name (cols ! j) = n)" .
  moreover have "(own (properties f) n \<noteq> None) = (named_cells cols gi hit n \<noteq> [])"
    using row_feature_properties [OF assms, of]
    by (cases "named_cells cols gi hit n") simp_all
  ultimately show ?thesis by simp
qed

section \<open>Properties of the converter\<close>

text \<open>
  In the statements below a parser result \<open>r\<close> with \<open>\<not> isl r\<close> is a normal return
  and one with \<open>isl r\<close> is a thrown fault. The source row of the \<open>k\<close>-th feature of
  the output is the row at index \<open>emitted_rows \<dots> ! k\<close>.
\<close>

subsection \<open>C1: number of features\<close>

text \<open>
  C1, as amended. When the locator returns an index the call returns a collection
  with at most as many features as there are rows. If no row is longer than the column
  list, the two numbers are equal exactly when every row has a truthy geometry cell on
  which the parser returns normally.
\<close>

theorem C1_row_count:
  assumes "getGeometryColumnIndex (columns resp) = Inr gi"
  shows "\<exists>fc. convertToGeoJson getGeometryColumnIndex parse resp = Inr fc \<and>
           length (features fc) \<le> length (values resp) \<and>
           ((\<forall>hit\<in>set (values resp). length hit \<le> length (columns resp)) \<longrightarrow>
            (length (features fc) = length (values resp)) =
              (\<forall>hit\<in>set (values resp).
                 truthy (js_index hit gi) \<and> \<not> isl (parse (js_index hit gi))))"
proof -
  let ?f = "row_feature parse (columns resp) gi"
  let ?fc = "\<lparr>features = List.map_filter ?f (values resp)\<rparr>"
  have c: "convertToGeoJson getGeometryColumnIndex parse resp = Inr ?fc"
    using assms by (rule convert_features)
  have l: "length (features ?fc) = length (filter (\<lambda>hit. ?f hit \<noteq> None) (values resp))"
    by (simp add: List.map_filter_def)
  then have le: "length (features ?fc) \<le> length (values resp)"
    by simp
  have eq: "(length (features ?fc) = length (values resp)) =
              (\<forall>hit\<in>set (values resp).
                 truthy (js_index hit gi) \<and> \<not> isl (parse (js_index hit gi)))"
    if b: "\<forall>hit\<in>set (values resp). length hit \<le> length (columns resp)"
  proof -
    have "?f hit \<noteq> None = (truthy (js_index hit gi) \<and> \<not> isl (parse (js_index hit gi)))"
      if "hit \<in> set (values resp)" for hit
    proof -
      from b that have "length hit \<le> length (columns resp)" by blast
      then have "\<forall>k. 0 \<le> k \<and> k < length hit \<and> k \<noteq> gi \<longrightarrow> k < length (columns resp)"
        by auto
      then have "\<exists>p. properties_loop (columns resp) gi hit 0 empty_object = Inr p"
        by (simp only: properties_loop_Inr_iff)
      then have "\<not> isl (properties_loop (columns resp) gi hit 0 empty_object)"
        by auto
      then show ?thesis by (simp add: row_feature_None)
    qed
    then show ?thesis
      by (simp only: l length_filter_eq_iff) blast
  qed
  from c le eq show ?thesis by blast
qed

text \<open>
  The specification's example: three rows, of which the one with a null geometry and
  the one with malformed text are dropped.
\<close>

theorem C1_row_count_witness:
  "\<exists>fc. convertToGeoJson (locateGeometryColumn example_geometry_name) example_parse
     \<lparr>columns = [\<lparr>name = ''geom'', type = ''geo_point''\<rparr>, \<lparr>name = ''count'', type = ''long''\<rparr>],
      values = [[JStr ''POINT (1 2)'', JNum 5], [JNull, JNum 9], [JStr ''NOT WKT'', JNum 3]]\<rparr>
       = Inr fc \<and>
     length (features fc) \<le> 3 \<and> length (features fc) \<noteq> 3"
  using C1_row_count [of "locateGeometryColumn example_geometry_name"
      "\<lparr>columns = [\<lparr>name = ''geom'', type = ''geo_point''\<rparr>, \<lparr>name = ''count'', type = ''long''\<rparr>],
        values = [[JStr ''POINT (1 2)'', JNum 5], [JNull, JNum 9], [JStr ''NOT WKT'', JNum 3]]\<rparr>"
      0 example_parse]
  by (simp add: locateGeometryColumn_def example_geometry_name_def js_index_def example_parse_def
      numeral_3_eq_3)

text \<open>
  Without the bound on the row length the equivalence fails. The row below has a
  second cell and there is one column: the geometry is read, the cell loop reaches
  index 1, \<^verbatim>\<open>resp.columns[1]\<close> is \<^verbatim>\<open>undefined\<close>, the \<^verbatim>\<open>TypeError\<close> is
  caught by the handler meant for parse errors, and the row adds no feature.
\<close>

theorem C1_over_long_row_counterexample:
  "locateGeometryColumn example_geometry_name [\<lparr>name = ''geom'', type = ''geo_point''\<rparr>] = Inr 0 \<and>
   truthy (js_index [JStr ''POINT (1 2)'', JNum 5] 0) \<and>
   \<not> isl (example_parse (js_index [JStr ''POINT (1 2)'', JNum 5] 0)) \<and>
   convertToGeoJson (locateGeometryColumn example_geometry_name) example_parse
     \<lparr>columns = [\<lparr>name = ''geom'', type = ''geo_point''\<rparr>],
      values = [[JStr ''POINT (1 2)'', JNum 5]]\<rparr> = Inr \<lparr>features = []\<rparr>"
  by (simp add: convertToGeoJson_def locateGeometryColumn_def example_geometry_name_def
      example_parse_def rows_loop.simps properties_loop.simps js_assign_def empty_object_def try_block_def js_index_def)

subsection \<open>C2: parse failures\<close>

text \<open>
  C2. When the locator returns an index, a row on whose geometry cell the parser
  throws contributes nothing: the call returns what it returns for the same rows
  without that row, so the fault is neither propagated nor recorded and the rows
  before and after are converted as usual. With no rows, or with rows that all fail to
  parse, the call returns a collection with an empty feature list. The handler of the
  source is empty, so there is nothing it could log.
\<close>

theorem C2_parse_failure_skips_row:
  assumes "getGeometryColumnIndex cols = Inr gi"
  shows "(isl (parse (js_index hit gi)) \<longrightarrow>
            convertToGeoJson getGeometryColumnIndex parse \<lparr>columns = cols, values = pre @ hit # post\<rparr> =
            convertToGeoJson getGeometryColumnIndex parse \<lparr>columns = cols, values = pre @ post\<rparr>) \<and>
         convertToGeoJson getGeometryColumnIndex parse \<lparr>columns = cols, values = []\<rparr> =
           Inr \<lparr>features = []\<rparr> \<and>
         ((\<forall>row\<in>set vals. isl (parse (js_index row gi))) \<longrightarrow>
            convertToGeoJson getGeometryColumnIndex parse \<lparr>columns = cols, values = vals\<rparr> =
              Inr \<lparr>features = []\<rparr>)"
proof -
  have c: "convertToGeoJson getGeometryColumnIndex parse \<lparr>columns = cols, values = vs\<rparr> =
             Inr \<lparr>features = List.map_filter (row_feature parse cols gi) vs\<rparr>" for vs
    using convert_features [of getGeometryColumnIndex "\<lparr>columns = cols, values = vs\<rparr>" gi parse] assms
    by simp
  have n: "row_feature parse cols gi row = None" if "isl (parse (js_index row gi))" for row
    using that by (simp add: row_feature_None)
  have "List.map_filter (row_feature parse cols gi) vals = []"
    if "\<forall>row\<in>set vals. isl (parse (js_index row gi))"
    using that by (simp add: List.map_filter_def n)
  then show ?thesis
    by (simp add: c n map_filter_skip List.map_filter_def)
qed

theorem C2_parse_failure_skips_row_witness:
  "convertToGeoJson (locateGeometryColumn example_geometry_name) example_parse
     \<lparr>columns = [\<lparr>name = ''geom'', type = ''geo_point''\<rparr>, \<lparr>name = ''count'', type = ''long''\<rparr>],
      values = [[JStr ''POINT (1 2)'', JNum 5]] @ [JStr ''NOT WKT'', JNum 3] # [[JStr ''POINT (1 2)'', JNum 7]]\<rparr> =
   convertToGeoJson (locateGeometryColumn example_geometry_name) example_parse
     \<lparr>columns = [\<lparr>name = ''geom'', type = ''geo_point''\<rparr>, \<lparr>name = ''count'', type = ''long''\<rparr>],
      values = [[JStr ''POINT (1 2)'', JNum 5]] @ [[JStr ''POINT (1 2)'', JNum 7]]\<rparr> \<and>
   convertToGeoJson (locateGeometryColumn example_geometry_name) example_parse
     \<lparr>columns = [\<lparr>name = ''geom'', type = ''geo_point''\<rparr>, \<lparr>name = ''count'', type = ''long''\<rparr>],
      values = [[JStr ''NOT WKT'', JNum 3], [JStr ''LINE'', JNum 4]]\<rparr> = Inr \<lparr>features = []\<rparr>"
  using C2_parse_failure_skips_row [of "locateGeometryColumn example_geometry_name"
      "[\<lparr>name = ''geom'', type = ''geo_point''\<rparr>, \<lparr>name = ''count'', type = ''long''\<rparr>]" 0
      example_parse "[JStr ''NOT WKT'', JNum 3]" "[[JStr ''POINT (1 2)'', JNum 5]]"
      "[[JStr ''POINT (1 2)'', JNum 7]]" "[[JStr ''NOT WKT'', JNum 3], [JStr ''LINE'', JNum 4]]"]
  by (simp add: locateGeometryColumn_def example_geometry_name_def js_index_def example_parse_def)

subsection \<open>C3: failure of the locator\<close>

text \<open>
  C3. With the locator of the specification, the call fails with
  \<open>ColumnResolutionError\<close> when the number of columns with a recognised name is not
  one, whatever the rows and the parser are, and returns a collection when it is one.
  For any locator, the call fails with an error exactly when the locator fails with
  that error: nothing else makes the call fail.
\<close>

theorem C3_locator_failure:
  "(length (filter (\<lambda>c. isGeometryName (name c)) (columns resp)) \<noteq> 1 \<longrightarrow>
      convertToGeoJson (locateGeometryColumn isGeometryName) parse resp = Inl ColumnResolutionError) \<and>
   (length (filter (\<lambda>c. isGeometryName (name c)) (columns resp)) = 1 \<longrightarrow>
      \<not> isl (convertToGeoJson (locateGeometryColumn isGeometryName) parse resp)) \<and>
   (convertToGeoJson getGeometryColumnIndex parse resp = Inl e) =
     (getGeometryColumnIndex (columns resp) = Inl e)"
proof -
  have "isl (convertToGeoJson (locateGeometryColumn isGeometryName) parse resp) =
          (length (filter (\<lambda>c. isGeometryName (name c)) (columns resp)) \<noteq> 1)"
    using locate_Inl [of isGeometryName "columns resp"]
      convert_error [of "locateGeometryColumn isGeometryName" parse resp]
    by (cases "convertToGeoJson (locateGeometryColumn isGeometryName) parse resp") auto
  moreover have "convertToGeoJson (locateGeometryColumn isGeometryName) parse resp =
      Inl ColumnResolutionError"
    if "length (filter (\<lambda>c. isGeometryName (name c)) (columns resp)) \<noteq> 1"
    using that by (simp add: convert_error locate_Inl)
  ultimately show ?thesis
    by (simp add: convert_error)
qed

theorem C3_locator_failure_witness:
  "convertToGeoJson (locateGeometryColumn example_geometry_name) example_parse
     \<lparr>columns = [\<lparr>name = ''id'', type = ''long''\<rparr>, \<lparr>name = ''count'', type = ''long''\<rparr>],
      values = [[JNum 1, JNum 5]]\<rparr> = Inl ColumnResolutionError \<and>
   convertToGeoJson (locateGeometryColumn example_geometry_name) example_parse
     \<lparr>columns = [\<lparr>name = ''geom'', type = ''geo_point''\<rparr>, \<lparr>name = ''geom'', type = ''geo_point''\<rparr>],
      values = [[JStr ''POINT (1 2)'', JStr ''POINT (1 2)'']]\<rparr> = Inl ColumnResolutionError"
  using C3_locator_failure [of example_geometry_name
      "\<lparr>columns = [\<lparr>name = ''id'', type = ''long''\<rparr>, \<lparr>name = ''count'', type = ''long''\<rparr>],
        values = [[JNum 1, JNum 5]]\<rparr>" example_parse]
    C3_locator_failure [of example_geometry_name
      "\<lparr>columns = [\<lparr>name = ''geom'', type = ''geo_point''\<rparr>, \<lparr>name = ''geom'', type = ''geo_point''\<rparr>],
        values = [[JStr ''POINT (1 2)'', JStr ''POINT (1 2)'']]\<rparr>" example_parse]
  by (simp add: example_geometry_name_def)

subsection \<open>C4: order of the features\<close>

text \<open>
  C4. When the locator returns an index, the features of the output are the features
  of the emitting rows taken in increasing order of row index: the \<open>k\<close>-th feature
  comes from the row at the \<open>k\<close>-th smallest index among the rows that emit.
\<close>

theorem C4_order_preserved:
  assumes "getGeometryColumnIndex (columns resp) = Inr gi"
  shows "\<exists>fc. convertToGeoJson getGeometryColumnIndex parse resp = Inr fc \<and>
           features fc =
             map (\<lambda>i. the (row_feature parse (columns resp) gi (values resp ! i)))
               (emitted_rows parse (columns resp) gi (values resp)) \<and>
           sorted_wrt (<) (emitted_rows parse (columns resp) gi (values resp)) \<and>
           set (emitted_rows parse (columns resp) gi (values resp)) =
             {i. i < length (values resp) \<and>
                 row_feature parse (columns resp) gi (values resp ! i) \<noteq> None}"
  using convert_features [of getGeometryColumnIndex resp gi parse] assms
  by (simp add: features_emitted_rows emitted_rows_sorted emitted_rows_set)

theorem C4_order_preserved_witness:
  "\<exists>fc. convertToGeoJson (locateGeometryColumn example_geometry_name) example_parse
     \<lparr>columns = [\<lparr>name = ''geom'', type = ''geo_point''\<rparr>, \<lparr>name = ''count'', type = ''long''\<rparr>],
      values = [[JStr ''POINT EMPTY'', JNum 5], [JNull, JNum 9], [JStr ''POINT (1 2)'', JNum 3]]\<rparr>
       = Inr fc \<and>
     map geometry (features fc) =
       [JNull, JObj [(''type'', JStr ''Point''), (''coordinates'', JArr [JNum 1, JNum 2])]] \<and>
     map (\<lambda>f. own (properties f) ''count'') (features fc) = [Some (JNum 5), Some (JNum 3)]"
proof -
  let ?cols = "[\<lparr>name = ''geom'', type = ''geo_point''\<rparr>, \<lparr>name = ''count'', type = ''long''\<rparr>]"
  let ?vals = "[[JStr ''POINT EMPTY'', JNum 5], [JNull, JNum 9], [JStr ''POINT (1 2)'', JNum 3]]"
  let ?resp = "\<lparr>columns = ?cols, values = ?vals\<rparr>"
  have h: "locateGeometryColumn example_geometry_name (columns ?resp) = Inr 0"
    by (simp add: locateGeometryColumn_def example_geometry_name_def)
  have e: "emitted_rows example_parse ?cols 0 ?vals = [0, 2]"
    by (simp add: emitted_rows_def row_feature_def try_block_def properties_loop.simps js_assign_def empty_object_def
        js_index_def example_parse_def)
  note t = C4_order_preserved [of "locateGeometryColumn example_geometry_name" ?resp 0 example_parse,
      OF h]
  then obtain fc where
    c: "convertToGeoJson (locateGeometryColumn example_geometry_name) example_parse ?resp = Inr fc"
    and f: "features fc = map (\<lambda>i. the (row_feature example_parse (columns ?resp) 0 (values ?resp ! i)))
              (emitted_rows example_parse (columns ?resp) 0 (values ?resp))"
    by (elim exE conjE)
  from f have "features fc = map (\<lambda>i. the (row_feature example_parse ?cols 0 (?vals ! i))) [0, 2]"
    by (simp add: e)
  then have "map geometry (features fc) =
       [JNull, JObj [(''type'', JStr ''Point''), (''coordinates'', JArr [JNum 1, JNum 2])]] \<and>
     map (\<lambda>f. own (properties f) ''count'') (features fc) = [Some (JNum 5), Some (JNum 3)]"
    by (simp add: row_feature_def try_block_def properties_loop.simps js_assign_def empty_object_def js_index_def example_parse_def)
  with c show ?thesis by (intro exI [of _ fc] conjI) simp_all
qed

subsection \<open>C5: falsy geometry cells\<close>

text \<open>
  C5. When the locator returns an index, a row whose geometry cell is falsy (null, the
  empty string, undefined, the number 0 among others) adds no feature and raises no
  error: the call returns what it returns without that row. The parser is not
  consulted on such a cell: changing what the parser does on it changes nothing in the
  result for any list of rows.
\<close>

theorem C5_falsy_geometry_skipped:
  assumes "getGeometryColumnIndex cols = Inr gi" and "\<not> truthy (js_index hit gi)"
  shows "convertToGeoJson getGeometryColumnIndex parse \<lparr>columns = cols, values = pre @ hit # post\<rparr> =
           convertToGeoJson getGeometryColumnIndex parse \<lparr>columns = cols, values = pre @ post\<rparr> \<and>
         \<not> isl (convertToGeoJson getGeometryColumnIndex parse
                  \<lparr>columns = cols, values = pre @ hit # post\<rparr>) \<and>
         convertToGeoJson getGeometryColumnIndex (parse(js_index hit gi := r))
             \<lparr>columns = cols, values = vals\<rparr> =
           convertToGeoJson getGeometryColumnIndex parse \<lparr>columns = cols, values = vals\<rparr> \<and>
         \<not> truthy JNull \<and> \<not> truthy (JStr '''') \<and> \<not> truthy JUndefined \<and> \<not> truthy (JNum 0)"
proof -
  have c: "convertToGeoJson getGeometryColumnIndex p \<lparr>columns = cols, values = vs\<rparr> =
             Inr \<lparr>features = List.map_filter (row_feature p cols gi) vs\<rparr>" for vs p
    using convert_features [of getGeometryColumnIndex "\<lparr>columns = cols, values = vs\<rparr>" gi p] assms(1)
    by simp
  have n: "row_feature parse cols gi hit = None"
    using assms(2) by (simp add: row_feature_None)
  have i: "row_feature (parse(js_index hit gi := r)) cols gi = row_feature parse cols gi"
    using assms(2) by (intro ext row_feature_parse_irrelevant)
  show ?thesis
    by (simp add: c n i map_filter_skip)
qed

theorem C5_falsy_geometry_skipped_witness:
  "convertToGeoJson (locateGeometryColumn example_geometry_name) example_parse
     \<lparr>columns = [\<lparr>name = ''geom'', type = ''geo_point''\<rparr>, \<lparr>name = ''count'', type = ''long''\<rparr>],
      values = [[JStr ''POINT (1 2)'', JNum 5]] @ [JNum 0, JNum 9] # []\<rparr> =
   convertToGeoJson (locateGeometryColumn example_geometry_name) example_parse
     \<lparr>columns = [\<lparr>name = ''geom'', type = ''geo_point''\<rparr>, \<lparr>name = ''count'', type = ''long''\<rparr>],
      values = [[JStr ''POINT (1 2)'', JNum 5]] @ []\<rparr>"
  using C5_falsy_geometry_skipped [of "locateGeometryColumn example_geometry_name"
      "[\<lparr>name = ''geom'', type = ''geo_point''\<rparr>, \<lparr>name = ''count'', type = ''long''\<rparr>]" 0
      "[JNum 0, JNum 9]" example_parse "[[JStr ''POINT (1 2)'', JNum 5]]" "[]"]
  by (simp add: locateGeometryColumn_def example_geometry_name_def js_index_def)

subsection \<open>C6: properties of a feature\<close>

text \<open>
  C6, as amended. Take an input whose rows all have as many cells as there are
  columns, and a feature of the output with its source row. For every non-geometry
  column whose name is not \<^verbatim>\<open>__proto__\<close> the properties hold an entry under the
  name of that column. Its value is the cell of the source row under the last
  non-geometry column that carries this name; this is the column itself when no later
  non-geometry column has the same name.
\<close>

theorem C6_property_completeness:
  assumes "getGeometryColumnIndex (columns resp) = Inr gi"
    and "\<forall>row\<in>set (values resp). length row = length (columns resp)"
    and "convertToGeoJson getGeometryColumnIndex parse resp = Inr fc"
    and "k < length (features fc)"
    and "hit = values resp ! (emitted_rows parse (columns resp) gi (values resp) ! k)"
    and "j < length (columns resp)" and "j \<noteq> gi"
    and "name (columns resp ! j) \<noteq> ''__proto__''"
    and "l = last (named_cells (columns resp) gi hit (name (columns resp ! j)))"
  shows "own (properties (features fc ! k)) (name (columns resp ! j)) = Some (hit ! l) \<and>
         j \<le> l \<and> l < length (columns resp) \<and> l \<noteq> gi \<and>
         name (columns resp ! l) = name (columns resp ! j) \<and>
         (\<forall>m. l < m \<and> m < length (columns resp) \<and> m \<noteq> gi \<longrightarrow>
              name (columns resp ! m) \<noteq> name (columns resp ! j)) \<and>
         ((\<forall>m. j < m \<and> m < length (columns resp) \<and> m \<noteq> gi \<longrightarrow>
              name (columns resp ! m) \<noteq> name (columns resp ! j)) \<longrightarrow> l = j)"
proof -
  let ?cols = "columns resp"
  let ?n = "name (?cols ! j)"
  from convert_source_row [OF assms(1,3,4,5)]
  have h: "hit \<in> set (values resp)"
    and f: "row_feature parse ?cols gi hit = Some (features fc ! k)"
    by simp_all
  from h assms(2) have len: "length hit = length ?cols" by blast
  from assms(6,7) len have "j \<in> set (named_cells ?cols gi hit ?n)"
    by (simp add: named_cells_member)
  then have ne: "named_cells ?cols gi hit ?n \<noteq> []" by auto
  from row_feature_properties [OF f assms(8)] ne assms(9)
  have p: "own (properties (features fc ! k)) ?n = Some (hit ! l)"
    by (simp split: list.splits)
  from named_cells_last [OF ne] assms(6,7,9) len
  have "l < length ?cols" "l \<noteq> gi" "name (?cols ! l) = ?n" "j \<le> l"
    and "\<And>m. m < length ?cols \<Longrightarrow> m \<noteq> gi \<Longrightarrow> name (?cols ! m) = ?n \<Longrightarrow> m \<le> l"
    by simp_all
  note l = this
  have "name (?cols ! m) \<noteq> ?n" if m: "l < m" "m < length ?cols" "m \<noteq> gi" for m
  proof
    assume "name (?cols ! m) = ?n"
    with l(5) [of m] m(2,3) have "m \<le> l" by simp
    with m(1) show False by simp
  qed
  then have a: "\<forall>m. l < m \<and> m < length ?cols \<and> m \<noteq> gi \<longrightarrow> name (?cols ! m) \<noteq> ?n"
    by blast
  have b: "(\<forall>m. j < m \<and> m < length ?cols \<and> m \<noteq> gi \<longrightarrow> name (?cols ! m) \<noteq> ?n) \<longrightarrow> l = j"
  proof
    assume u: "\<forall>m. j < m \<and> m < length ?cols \<and> m \<noteq> gi \<longrightarrow> name (?cols ! m) \<noteq> ?n"
    show "l = j"
    proof (rule ccontr)
      assume "l \<noteq> j"
      with l(4) have "j < l" by simp
      with u l(1,2) have "name (?cols ! l) \<noteq> ?n" by blast
      with l(3) show False by simp
    qed
  qed
  from p l(4) l(1) l(2) l(3) a b show ?thesis
    by (intro conjI)
qed

text \<open>
  Four columns, the first and the last both called \<^verbatim>\<open>id\<close>: the entry for
  \<^verbatim>\<open>count\<close> is the cell of that column, the entry for \<^verbatim>\<open>id\<close> is the cell of
  the last column.
\<close>

theorem C6_property_completeness_witness:
  "\<exists>fc. convertToGeoJson (locateGeometryColumn example_geometry_name) example_parse
     \<lparr>columns = [\<lparr>name = ''id'', type = ''long''\<rparr>, \<lparr>name = ''geom'', type = ''geo_point''\<rparr>,
                 \<lparr>name = ''count'', type = ''long''\<rparr>, \<lparr>name = ''id'', type = ''long''\<rparr>],
      values = [[JNum 1, JStr ''POINT (1 2)'', JNum 5, JNum 2]]\<rparr> = Inr fc \<and>
     own (properties (features fc ! 0)) ''count'' = Some (JNum 5) \<and>
     own (properties (features fc ! 0)) ''id'' = Some (JNum 2)"
proof -
  let ?cols = "[\<lparr>name = ''id'', type = ''long''\<rparr>, \<lparr>name = ''geom'', type = ''geo_point''\<rparr>,
                 \<lparr>name = ''count'', type = ''long''\<rparr>, \<lparr>name = ''id'', type = ''long''\<rparr>]"
  let ?hit = "[JNum 1, JStr ''POINT (1 2)'', JNum 5, JNum 2]"
  let ?resp = "\<lparr>columns = ?cols, values = [?hit]\<rparr>"
  let ?loc = "locateGeometryColumn example_geometry_name"
  let ?fc = "projr (convertToGeoJson ?loc example_parse ?resp)"
  have h1: "?loc (columns ?resp) = Inr 1"
    by (simp add: locateGeometryColumn_def example_geometry_name_def)
  have h2: "\<forall>row\<in>set (values ?resp). length row = length (columns ?resp)"
    by simp
  have h3: "convertToGeoJson ?loc example_parse ?resp = Inr ?fc"
    by (simp add: convertToGeoJson_def h1 [simplified])
  have e: "emitted_rows example_parse ?cols (Suc 0) [?hit] = [0]"
    by (simp add: emitted_rows_def row_feature_def try_block_def properties_loop.simps js_assign_def empty_object_def
        js_index_def example_parse_def)
  have h4: "0 < length (features ?fc)"
    by (simp add: convertToGeoJson_def locateGeometryColumn_def example_geometry_name_def
        example_parse_def rows_loop.simps properties_loop.simps js_assign_def empty_object_def
        try_block_def js_index_def)
  have h5: "?hit = values ?resp ! (emitted_rows example_parse (columns ?resp) 1 (values ?resp) ! 0)"
    by (simp add: e)
  have "own (properties (features ?fc ! 0)) (name (columns ?resp ! 2)) =
          Some (?hit ! last (named_cells (columns ?resp) 1 ?hit (name (columns ?resp ! 2))))"
    using C6_property_completeness [OF h1 h2 h3 h4 h5, of 2] by simp
  moreover have "own (properties (features ?fc ! 0)) (name (columns ?resp ! 0)) =
          Some (?hit ! last (named_cells (columns ?resp) 1 ?hit (name (columns ?resp ! 0))))"
    using C6_property_completeness [OF h1 h2 h3 h4 h5, of 0] by simp
  ultimately have "own (properties (features ?fc ! 0)) ''count'' = Some (JNum 5) \<and>
     own (properties (features ?fc ! 0)) ''id'' = Some (JNum 2)"
    by (simp add: named_cells_def)
  with h3 show ?thesis by (intro exI [of _ ?fc] conjI) simp_all
qed

text \<open>
  As stated, the property fails in two ways, both on rows as long as the column list.
  With a repeated name the value is not the cell at the column's own index: column 1
  is called \<^verbatim>\<open>id\<close> and its cell is 1, yet the entry under \<^verbatim>\<open>id\<close> is 2, the
  cell of column 2, which the cell loop assigns later under the same name. With a
  column called \<^verbatim>\<open>__proto__\<close> there is no entry at all: the assignment of line 31
  reaches the inherited setter, which ignores the number 5.
\<close>

theorem C6_duplicate_name_counterexample:
  "length [JStr ''POINT (1 2)'', JNum 1, JNum 2] =
     length [\<lparr>name = ''geom'', type = ''geo_point''\<rparr>, \<lparr>name = ''id'', type = ''long''\<rparr>,
             \<lparr>name = ''id'', type = ''long''\<rparr>] \<and>
   name ([\<lparr>name = ''geom'', type = ''geo_point''\<rparr>, \<lparr>name = ''id'', type = ''long''\<rparr>,
          \<lparr>name = ''id'', type = ''long''\<rparr>] ! 1) = ''id'' \<and>
   [JStr ''POINT (1 2)'', JNum 1, JNum 2] ! 1 = JNum 1 \<and>
   length (features (projr (convertToGeoJson (locateGeometryColumn example_geometry_name) example_parse
     \<lparr>columns = [\<lparr>name = ''geom'', type = ''geo_point''\<rparr>, \<lparr>name = ''id'', type = ''long''\<rparr>,
                 \<lparr>name = ''id'', type = ''long''\<rparr>],
      values = [[JStr ''POINT (1 2)'', JNum 1, JNum 2]]\<rparr>))) = 1 \<and>
   own (properties (features (projr (convertToGeoJson (locateGeometryColumn example_geometry_name)
     example_parse
     \<lparr>columns = [\<lparr>name = ''geom'', type = ''geo_point''\<rparr>, \<lparr>name = ''id'', type = ''long''\<rparr>,
                 \<lparr>name = ''id'', type = ''long''\<rparr>],
      values = [[JStr ''POINT (1 2)'', JNum 1, JNum 2]]\<rparr>)) ! 0)) ''id'' = Some (JNum 2) \<and>
   length [JStr ''POINT (1 2)'', JNum 5] =
     length [\<lparr>name = ''geom'', type = ''geo_point''\<rparr>, \<lparr>name = ''__proto__'', type = ''long''\<rparr>] \<and>
   length (features (projr (convertToGeoJson (locateGeometryColumn example_geometry_name) example_parse
     \<lparr>columns = [\<lparr>name = ''geom'', type = ''geo_point''\<rparr>, \<lparr>name = ''__proto__'', type = ''long''\<rparr>],
      values = [[JStr ''POINT (1 2)'', JNum 5]]\<rparr>))) = 1 \<and>
   own (properties (features (projr (convertToGeoJson (locateGeometryColumn example_geometry_name)
     example_parse
     \<lparr>columns = [\<lparr>name = ''geom'', type = ''geo_point''\<rparr>, \<lparr>name = ''__proto__'', type = ''long''\<rparr>],
      values = [[JStr ''POINT (1 2)'', JNum 5]]\<rparr>)) ! 0)) ''__proto__'' = None"
  by (simp add: convertToGeoJson_def locateGeometryColumn_def example_geometry_name_def
      example_parse_def rows_loop.simps properties_loop.simps js_assign_def empty_object_def
      try_block_def js_index_def)

subsection \<open>C7: the geometry cell is not a property\<close>

text \<open>
  C7. With the locator of the specification, no feature of the output has an entry
  under the name of the geometry column, so the raw geometry cell of its source row is
  not stored under that name. The cell loop leaves out the geometry cell by its index
  (line 28); that no other column fills the same name comes from the locator, which
  returns an index only when a single column has a recognised name.
\<close>

theorem C7_geometry_excluded:
  assumes "locateGeometryColumn isGeometryName (columns resp) = Inr gi"
    and "convertToGeoJson (locateGeometryColumn isGeometryName) parse resp = Inr fc"
    and "k < length (features fc)"
    and "hit = values resp ! (emitted_rows parse (columns resp) gi (values resp) ! k)"
  shows "own (properties (features fc ! k)) (name (columns resp ! gi)) \<noteq> Some (js_index hit gi) \<and>
         own (properties (features fc ! k)) (name (columns resp ! gi)) = None"
proof -
  let ?cols = "columns resp"
  let ?n = "name (?cols ! gi)"
  from convert_source_row(2) [OF assms(1,2,3,4)]
  have f: "row_feature parse ?cols gi hit = Some (features fc ! k)" .
  have "own (properties (features fc ! k)) ?n = None"
  proof (rule ccontr)
    assume "own (properties (features fc ! k)) ?n \<noteq> None"
    then obtain x where "own (properties (features fc ! k)) ?n = Some x"
      by auto
    from row_feature_source [OF f this] obtain m where
      m: "m < length hit" "m \<noteq> gi" "name (?cols ! m) = ?n"
      by auto
    from row_feature_in_bounds [OF f m(1,2)] have "m < length ?cols" .
    moreover from locate_unique(2) [OF assms(1)] m(3) have "isGeometryName (name (?cols ! m))"
      by simp
    ultimately have "m = gi"
      by (rule locate_unique(3) [OF assms(1)])
    with m(2) show False by simp
  qed
  then show ?thesis by simp
qed

theorem C7_geometry_excluded_witness:
  "own (properties (features (projr (convertToGeoJson (locateGeometryColumn example_geometry_name)
     example_parse
     \<lparr>columns = [\<lparr>name = ''geom'', type = ''geo_point''\<rparr>, \<lparr>name = ''count'', type = ''long''\<rparr>],
      values = [[JStr ''POINT (1 2)'', JNum 5]]\<rparr>)) ! 0)) ''geom'' = None"
proof -
  let ?cols = "[\<lparr>name = ''geom'', type = ''geo_point''\<rparr>, \<lparr>name = ''count'', type = ''long''\<rparr>]"
  let ?hit = "[JStr ''POINT (1 2)'', JNum 5]"
  let ?resp = "\<lparr>columns = ?cols, values = [?hit]\<rparr>"
  let ?loc = "locateGeometryColumn example_geometry_name"
  let ?fc = "projr (convertToGeoJson ?loc example_parse ?resp)"
  have h1: "?loc (columns ?resp) = Inr 0"
    by (simp add: locateGeometryColumn_def example_geometry_name_def)
  have h2: "convertToGeoJson ?loc example_parse ?resp = Inr ?fc"
    by (simp add: convertToGeoJson_def h1 [simplified])
  have h3: "0 < length (features ?fc)"
    by (simp add: convertToGeoJson_def locateGeometryColumn_def example_geometry_name_def
        example_parse_def rows_loop.simps properties_loop.simps js_assign_def empty_object_def try_block_def js_index_def)
  have e: "emitted_rows example_parse ?cols 0 [?hit] = [0]"
    by (simp add: emitted_rows_def row_feature_def try_block_def properties_loop.simps js_assign_def empty_object_def
        js_index_def example_parse_def)
  have h4: "?hit = values ?resp ! (emitted_rows example_parse (columns ?resp) 0 (values ?resp) ! 0)"
    by (simp add: e)
  from C7_geometry_excluded [OF h1 h2 h3 h4] show ?thesis by simp
qed

subsection \<open>C8: repeated column names\<close>

text \<open>
  C8, as amended. Take a feature of the output with its source row and a name \<open>n\<close>
  other than \<^verbatim>\<open>__proto__\<close>. The entry under \<open>n\<close> is the cell of the row at the
  highest-index non-geometry column called \<open>n\<close> for which the row has a cell: among
  several columns of the same name the last one within the row wins. If the row has a
  cell for no such column, there is no entry under \<open>n\<close>. When the row is as long as
  the column list, the column in question is the highest-index occurrence of the name
  among all non-geometry columns. The statement holds for any name, repeated or not.
\<close>

theorem C8_later_column_overwrites:
  assumes "getGeometryColumnIndex (columns resp) = Inr gi"
    and "convertToGeoJson getGeometryColumnIndex parse resp = Inr fc"
    and "k < length (features fc)"
    and "hit = values resp ! (emitted_rows parse (columns resp) gi (values resp) ! k)"
  shows "(j < length hit \<and> j \<noteq> gi \<and> name (columns resp ! j) = n \<and> n \<noteq> ''__proto__'' \<and>
          (\<forall>m. j < m \<and> m < length hit \<and> m \<noteq> gi \<longrightarrow> name (columns resp ! m) \<noteq> n) \<longrightarrow>
            own (properties (features fc ! k)) n = Some (hit ! j)) \<and>
         ((\<forall>m. m < length hit \<and> m \<noteq> gi \<longrightarrow> name (columns resp ! m) \<noteq> n) \<longrightarrow>
            own (properties (features fc ! k)) n = None)"
proof -
  let ?cols = "columns resp"
  from convert_source_row(2) [OF assms(1,2,3,4)]
  have f: "row_feature parse ?cols gi hit = Some (features fc ! k)" .
  have a: "own (properties (features fc ! k)) n = Some (hit ! j)"
    if j: "j < length hit" "j \<noteq> gi" "name (?cols ! j) = n" and n: "n \<noteq> ''__proto__''"
      and u: "\<forall>m. j < m \<and> m < length hit \<and> m \<noteq> gi \<longrightarrow> name (?cols ! m) \<noteq> n"
  proof -
    from j have "j \<in> set (named_cells ?cols gi hit n)"
      by (simp add: named_cells_member)
    then have ne: "named_cells ?cols gi hit n \<noteq> []" by auto
    let ?l = "last (named_cells ?cols gi hit n)"
    from named_cells_last [OF ne] j
    have l: "?l < length hit" "?l \<noteq> gi" "name (?cols ! ?l) = n" "j \<le> ?l"
      by simp_all
    have "?l = j"
    proof (rule ccontr)
      assume "?l \<noteq> j"
      with l(4) have "j < ?l" by simp
      with u l(1,2) have "name (?cols ! ?l) \<noteq> n" by blast
      with l(3) show False by simp
    qed
    moreover have "own (properties (features fc ! k)) n = Some (hit ! ?l)"
      using row_feature_properties [OF f n] ne
      by (cases "named_cells ?cols gi hit n") simp_all
    ultimately show ?thesis by simp
  qed
  have b: "own (properties (features fc ! k)) n = None"
    if u: "\<forall>m. m < length hit \<and> m \<noteq> gi \<longrightarrow> name (?cols ! m) \<noteq> n"
  proof (rule ccontr)
    assume "own (properties (features fc ! k)) n \<noteq> None"
    then obtain x where "own (properties (features fc ! k)) n = Some x"
      by auto
    from row_feature_source [OF f this] obtain m where
      "m < length hit" "m \<noteq> gi" "name (?cols ! m) = n"
      by auto
    with u show False by blast
  qed
  from a b show ?thesis by blast
qed

text \<open>
  First the short row on which the property as first stated fails: columns 1 and 2 are both
  called \<^verbatim>\<open>id\<close>, the row has a cell for column 1 only, and the entry is that cell.
  Then a full row with three columns called \<^verbatim>\<open>tag\<close> around the geometry column:
  the last one wins.
\<close>

theorem C8_later_column_overwrites_witness:
  "own (properties (features (projr (convertToGeoJson (locateGeometryColumn example_geometry_name)
     example_parse
     \<lparr>columns = [\<lparr>name = ''geom'', type = ''geo_point''\<rparr>, \<lparr>name = ''id'', type = ''long''\<rparr>,
                 \<lparr>name = ''id'', type = ''long''\<rparr>],
      values = [[JStr ''POINT (1 2)'', JNum 1]]\<rparr>)) ! 0)) ''id'' = Some (JNum 1) \<and>
   own (properties (features (projr (convertToGeoJson (locateGeometryColumn example_geometry_name)
     example_parse
     \<lparr>columns = [\<lparr>name = ''tag'', type = ''keyword''\<rparr>, \<lparr>name = ''geom'', type = ''geo_point''\<rparr>,
                 \<lparr>name = ''tag'', type = ''keyword''\<rparr>, \<lparr>name = ''tag'', type = ''keyword''\<rparr>],
      values = [[JStr ''x'', JStr ''POINT (1 2)'', JStr ''y'', JStr ''z'']]\<rparr>)) ! 0)) ''tag''
   = Some (JStr ''z'')"
proof -
  let ?loc = "locateGeometryColumn example_geometry_name"
  let ?cols1 = "[\<lparr>name = ''geom'', type = ''geo_point''\<rparr>, \<lparr>name = ''id'', type = ''long''\<rparr>,
                 \<lparr>name = ''id'', type = ''long''\<rparr>]"
  let ?hit1 = "[JStr ''POINT (1 2)'', JNum 1]"
  let ?resp1 = "\<lparr>columns = ?cols1, values = [?hit1]\<rparr>"
  let ?fc1 = "projr (convertToGeoJson ?loc example_parse ?resp1)"
  have a1: "?loc (columns ?resp1) = Inr 0"
    by (simp add: locateGeometryColumn_def example_geometry_name_def)
  have a2: "convertToGeoJson ?loc example_parse ?resp1 = Inr ?fc1"
    by (simp add: convertToGeoJson_def a1 [simplified])
  have a3: "0 < length (features ?fc1)"
    by (simp add: convertToGeoJson_def locateGeometryColumn_def example_geometry_name_def
        example_parse_def rows_loop.simps properties_loop.simps js_assign_def empty_object_def
        try_block_def js_index_def)
  have e1: "emitted_rows example_parse ?cols1 0 [?hit1] = [0]"
    by (simp add: emitted_rows_def row_feature_def try_block_def properties_loop.simps
        js_assign_def empty_object_def js_index_def example_parse_def)
  have a4: "?hit1 = values ?resp1 ! (emitted_rows example_parse (columns ?resp1) 0 (values ?resp1) ! 0)"
    by (simp add: e1)
  have a5: "1 < length ?hit1 \<and> (1::nat) \<noteq> 0 \<and> name (columns ?resp1 ! 1) = ''id'' \<and>
      ''id'' \<noteq> ''__proto__'' \<and>
      (\<forall>m. 1 < m \<and> m < length ?hit1 \<and> m \<noteq> 0 \<longrightarrow> name (columns ?resp1 ! m) \<noteq> ''id'')"
    by simp
  note t1 = C8_later_column_overwrites [OF a1 a2 a3 a4, of 1 "''id''", THEN conjunct1,
      THEN mp, OF a5]
  let ?cols2 = "[\<lparr>name = ''tag'', type = ''keyword''\<rparr>, \<lparr>name = ''geom'', type = ''geo_point''\<rparr>,
                 \<lparr>name = ''tag'', type = ''keyword''\<rparr>, \<lparr>name = ''tag'', type = ''keyword''\<rparr>]"
  let ?hit2 = "[JStr ''x'', JStr ''POINT (1 2)'', JStr ''y'', JStr ''z'']"
  let ?resp2 = "\<lparr>columns = ?cols2, values = [?hit2]\<rparr>"
  let ?fc2 = "projr (convertToGeoJson ?loc example_parse ?resp2)"
  have b1: "?loc (columns ?resp2) = Inr 1"
    by (simp add: locateGeometryColumn_def example_geometry_name_def)
  have b2: "convertToGeoJson ?loc example_parse ?resp2 = Inr ?fc2"
    by (simp add: convertToGeoJson_def b1 [simplified])
  have b3: "0 < length (features ?fc2)"
    by (simp add: convertToGeoJson_def locateGeometryColumn_def example_geometry_name_def
        example_parse_def rows_loop.simps properties_loop.simps js_assign_def empty_object_def
        try_block_def js_index_def)
  have e2: "emitted_rows example_parse ?cols2 (Suc 0) [?hit2] = [0]"
    by (simp add: emitted_rows_def row_feature_def try_block_def properties_loop.simps
        js_assign_def empty_object_def js_index_def example_parse_def)
  have b4: "?hit2 = values ?resp2 ! (emitted_rows example_parse (columns ?resp2) 1 (values ?resp2) ! 0)"
    by (simp add: e2)
  have b5: "3 < length ?hit2 \<and> (3::nat) \<noteq> 1 \<and> name (columns ?resp2 ! 3) = ''tag'' \<and>
      ''tag'' \<noteq> ''__proto__'' \<and>
      (\<forall>m. 3 < m \<and> m < length ?hit2 \<and> m \<noteq> 1 \<longrightarrow> name (columns ?resp2 ! m) \<noteq> ''tag'')"
    by simp
  note t2 = C8_later_column_overwrites [OF b1 b2 b3 b4, of 3 "''tag''", THEN conjunct1,
      THEN mp, OF b5]
  from t1 t2 show ?thesis by simp
qed

text \<open>
  As stated, the property fails in two ways. On a short row: columns 1 and 2 are both
  called \<^verbatim>\<open>id\<close> and the row has two cells. The cell loop stops at the length of
  the row, so the entry under \<^verbatim>\<open>id\<close> is the cell of column 1, while the row has no
  cell for column 2, the highest-index occurrence (reading it gives
  \<^verbatim>\<open>undefined\<close>). On the name \<^verbatim>\<open>__proto__\<close>: with two columns of that name and
  the cells 1 and 2, both assignments reach the inherited setter, which ignores numbers,
  and there is no entry.
\<close>

theorem C8_short_row_counterexample:
  "name ([\<lparr>name = ''geom'', type = ''geo_point''\<rparr>, \<lparr>name = ''id'', type = ''long''\<rparr>,
          \<lparr>name = ''id'', type = ''long''\<rparr>] ! 1) =
   name ([\<lparr>name = ''geom'', type = ''geo_point''\<rparr>, \<lparr>name = ''id'', type = ''long''\<rparr>,
          \<lparr>name = ''id'', type = ''long''\<rparr>] ! 2) \<and>
   js_index [JStr ''POINT (1 2)'', JNum 1] 2 = JUndefined \<and>
   length (features (projr (convertToGeoJson (locateGeometryColumn example_geometry_name) example_parse
     \<lparr>columns = [\<lparr>name = ''geom'', type = ''geo_point''\<rparr>, \<lparr>name = ''id'', type = ''long''\<rparr>,
                 \<lparr>name = ''id'', type = ''long''\<rparr>],
      values = [[JStr ''POINT (1 2)'', JNum 1]]\<rparr>))) = 1 \<and>
   own (properties (features (projr (convertToGeoJson (locateGeometryColumn example_geometry_name)
     example_parse
     \<lparr>columns = [\<lparr>name = ''geom'', type = ''geo_point''\<rparr>, \<lparr>name = ''id'', type = ''long''\<rparr>,
                 \<lparr>name = ''id'', type = ''long''\<rparr>],
      values = [[JStr ''POINT (1 2)'', JNum 1]]\<rparr>)) ! 0)) ''id'' = Some (JNum 1) \<and>
   js_index [JStr ''POINT (1 2)'', JNum 1, JNum 2] 2 = JNum 2 \<and>
   length (features (projr (convertToGeoJson (locateGeometryColumn example_geometry_name) example_parse
     \<lparr>columns = [\<lparr>name = ''geom'', type = ''geo_point''\<rparr>, \<lparr>name = ''__proto__'', type = ''long''\<rparr>,
                 \<lparr>name = ''__proto__'', type = ''long''\<rparr>],
      values = [[JStr ''POINT (1 2)'', JNum 1, JNum 2]]\<rparr>))) = 1 \<and>
   own (properties (features (projr (convertToGeoJson (locateGeometryColumn example_geometry_name)
     example_parse
     \<lparr>columns = [\<lparr>name = ''geom'', type = ''geo_point''\<rparr>, \<lparr>name = ''__proto__'', type = ''long''\<rparr>,
                 \<lparr>name = ''__proto__'', type = ''long''\<rparr>],
      values = [[JStr ''POINT (1 2)'', JNum 1, JNum 2]]\<rparr>)) ! 0)) ''__proto__'' = None"
  by (simp add: convertToGeoJson_def locateGeometryColumn_def example_geometry_name_def
      example_parse_def rows_loop.simps properties_loop.simps js_assign_def empty_object_def
      try_block_def js_index_def)

subsection \<open>C9: the geometry is what the parser returns\<close>

text \<open>
  C9, as amended. When the locator returns an index, a row that is not longer than the
  column list, whose geometry cell is truthy and on which the parser returns \<open>g\<close>
  without throwing, emits a feature whose geometry is \<open>g\<close>. Nothing is checked about
  \<open>g\<close>: a parser that returns \<^verbatim>\<open>null\<close> on malformed text gives a feature with a
  null geometry.
\<close>

theorem C9_parser_result_is_geometry:
  assumes "getGeometryColumnIndex (columns resp) = Inr gi"
    and "i < length (values resp)" and "hit = values resp ! i"
    and "length hit \<le> length (columns resp)"
    and "truthy (js_index hit gi)" and "parse (js_index hit gi) = Inr g"
  shows "\<exists>fc k. convertToGeoJson getGeometryColumnIndex parse resp = Inr fc \<and>
           k < length (features fc) \<and>
           emitted_rows parse (columns resp) gi (values resp) ! k = i \<and>
           geometry (features fc ! k) = g"
proof -
  from short_row_properties_loop [OF assms(4)] obtain props where
    "properties_loop (columns resp) gi hit 0 empty_object = Inr props"
    by blast
  with assms(5,6) have "row_feature parse (columns resp) gi hit =
      Some \<lparr>geometry = g, properties = props\<rparr>"
    by (simp add: row_feature_Some)
  with assms(3) have "row_feature parse (columns resp) gi (values resp ! i) =
      Some \<lparr>geometry = g, properties = props\<rparr>"
    by simp
  from convert_row_emitted [where getGeometryColumnIndex = getGeometryColumnIndex and resp = resp
      and parse = parse, OF assms(1,2) this]
  show ?thesis by fastforce
qed

text \<open>The second row below is read by the example parser as \<^verbatim>\<open>null\<close>.\<close>

theorem C9_parser_result_is_geometry_witness:
  "\<exists>fc k. convertToGeoJson (locateGeometryColumn example_geometry_name) example_parse
       \<lparr>columns = [\<lparr>name = ''geom'', type = ''geo_point''\<rparr>, \<lparr>name = ''count'', type = ''long''\<rparr>],
        values = [[JNull, JNum 4], [JStr ''POINT EMPTY'', JNum 5]]\<rparr> = Inr fc \<and>
     k < length (features fc) \<and> geometry (features fc ! k) = JNull"
proof -
  let ?cols = "[\<lparr>name = ''geom'', type = ''geo_point''\<rparr>, \<lparr>name = ''count'', type = ''long''\<rparr>]"
  let ?resp = "\<lparr>columns = ?cols, values = [[JNull, JNum 4], [JStr ''POINT EMPTY'', JNum 5]]\<rparr>"
  let ?loc = "locateGeometryColumn example_geometry_name"
  have h1: "?loc (columns ?resp) = Inr 0"
    by (simp add: locateGeometryColumn_def example_geometry_name_def)
  have "\<exists>fc k. convertToGeoJson ?loc example_parse ?resp = Inr fc \<and>
           k < length (features fc) \<and>
           emitted_rows example_parse (columns ?resp) 0 (values ?resp) ! k = 1 \<and>
           geometry (features fc ! k) = JNull"
    by (rule C9_parser_result_is_geometry [where getGeometryColumnIndex = ?loc and resp = ?resp
          and parse = example_parse and hit = "[JStr ''POINT EMPTY'', JNum 5]", OF h1])
      (simp_all add: js_index_def example_parse_def)
  then show ?thesis by (elim exE conjE) (intro exI conjI)
qed

text \<open>
  Without the bound on the row length a normal return of the parser is not enough. The
  row below has three cells for two columns: the parser returns \<^verbatim>\<open>null\<close>, then the
  cell loop reads \<^verbatim>\<open>resp.columns[2].name\<close>, the \<^verbatim>\<open>TypeError\<close> is caught and
  no feature is pushed.
\<close>

theorem C9_over_long_row_counterexample:
  "locateGeometryColumn example_geometry_name
     [\<lparr>name = ''geom'', type = ''geo_point''\<rparr>, \<lparr>name = ''count'', type = ''long''\<rparr>] = Inr 0 \<and>
   truthy (js_index [JStr ''POINT EMPTY'', JNum 5, JNum 6] 0) \<and>
   example_parse (js_index [JStr ''POINT EMPTY'', JNum 5, JNum 6] 0) = Inr JNull \<and>
   convertToGeoJson (locateGeometryColumn example_geometry_name) example_parse
     \<lparr>columns = [\<lparr>name = ''geom'', type = ''geo_point''\<rparr>, \<lparr>name = ''count'', type = ''long''\<rparr>],
      values = [[JStr ''POINT EMPTY'', JNum 5, JNum 6]]\<rparr> = Inr \<lparr>features = []\<rparr>"
  by (simp add: convertToGeoJson_def locateGeometryColumn_def example_geometry_name_def
      example_parse_def rows_loop.simps properties_loop.simps js_assign_def empty_object_def try_block_def js_index_def)

subsection \<open>C10: the cell loop is bounded by the row\<close>

text \<open>
  C10. The cell loop runs over the indices below the length of the row. For an input
  in which no row is longer than the column list, the loop never reaches the branch
  where the column descriptor is missing: from any index and with any properties it
  returns normally. A row with a truthy geometry cell on which the parser returns
  normally then emits a feature, also when the row is shorter than the column list.
  Every entry of its properties comes from a non-geometry column for which the row has
  a cell, under the name of that column and with that cell as value, so the trailing
  columns are left out and no error is raised. For a name other than
  \<^verbatim>\<open>__proto__\<close> there is an entry exactly when the row has a cell for a
  non-geometry column of that name.
\<close>

theorem C10_row_length_bounds_lookup:
  assumes "getGeometryColumnIndex (columns resp) = Inr gi"
    and "\<forall>row\<in>set (values resp). length row \<le> length (columns resp)"
    and "i < length (values resp)" and "hit = values resp ! i"
  shows "(\<forall>j props. \<not> isl (properties_loop (columns resp) gi hit j props)) \<and>
         (truthy (js_index hit gi) \<and> \<not> isl (parse (js_index hit gi)) \<longrightarrow>
            (\<exists>fc k. convertToGeoJson getGeometryColumnIndex parse resp = Inr fc \<and>
               k < length (features fc) \<and>
               emitted_rows parse (columns resp) gi (values resp) ! k = i \<and>
               (\<forall>n v. own (properties (features fc ! k)) n = Some v \<longrightarrow>
                      (\<exists>j<length hit. j \<noteq> gi \<and> name (columns resp ! j) = n \<and> v = hit ! j)) \<and>
               (\<forall>n. n \<noteq> ''__proto__'' \<longrightarrow>
                      (own (properties (features fc ! k)) n \<noteq> None) =
                      (\<exists>j<length hit. j \<noteq> gi \<and> name (columns resp ! j) = n))))"
proof -
  from assms(2,3,4) have len: "length hit \<le> length (columns resp)"
    by simp
  have a: "\<not> isl (properties_loop (columns resp) gi hit j props)" for j props
    using short_row_properties_loop [OF len, of gi j props] by auto
  have b: "\<exists>fc k. convertToGeoJson getGeometryColumnIndex parse resp = Inr fc \<and>
               k < length (features fc) \<and>
               emitted_rows parse (columns resp) gi (values resp) ! k = i \<and>
               (\<forall>n v. own (properties (features fc ! k)) n = Some v \<longrightarrow>
                      (\<exists>j<length hit. j \<noteq> gi \<and> name (columns resp ! j) = n \<and> v = hit ! j)) \<and>
               (\<forall>n. n \<noteq> ''__proto__'' \<longrightarrow>
                      (own (properties (features fc ! k)) n \<noteq> None) =
                      (\<exists>j<length hit. j \<noteq> gi \<and> name (columns resp ! j) = n))"
    if t: "truthy (js_index hit gi)" and p: "\<not> isl (parse (js_index hit gi))"
  proof -
    from t p a [of 0 empty_object] have "row_feature parse (columns resp) gi hit \<noteq> None"
      by (simp add: row_feature_None)
    then obtain f where f: "row_feature parse (columns resp) gi hit = Some f"
      by auto
    with assms(4) have "row_feature parse (columns resp) gi (values resp ! i) = Some f"
      by simp
    from convert_row_emitted [where getGeometryColumnIndex = getGeometryColumnIndex
        and resp = resp and parse = parse, OF assms(1,3) this]
    obtain fc k where
      "convertToGeoJson getGeometryColumnIndex parse resp = Inr fc" "k < length (features fc)"
      "emitted_rows parse (columns resp) gi (values resp) ! k = i" "features fc ! k = f"
      by (elim exE conjE)
    moreover have "\<forall>n v. own (properties f) n = Some v \<longrightarrow>
        (\<exists>j<length hit. j \<noteq> gi \<and> name (columns resp ! j) = n \<and> v = hit ! j)"
      using row_feature_source [OF f] by blast
    moreover have "\<forall>n. n \<noteq> ''__proto__'' \<longrightarrow>
        (own (properties f) n \<noteq> None) = (\<exists>j<length hit. j \<noteq> gi \<and> name (columns resp ! j) = n)"
      using row_feature_keys [OF f] by blast
    ultimately show ?thesis by (intro exI [of _ fc] exI [of _ k]) simp
  qed
  from a b show ?thesis by blast
qed

text \<open>Three columns and a row of two cells: \<^verbatim>\<open>extra\<close> has no entry.\<close>

theorem C10_row_length_bounds_lookup_witness:
  "\<exists>fc k. convertToGeoJson (locateGeometryColumn example_geometry_name) example_parse
       \<lparr>columns = [\<lparr>name = ''geom'', type = ''geo_point''\<rparr>, \<lparr>name = ''count'', type = ''long''\<rparr>,
                   \<lparr>name = ''extra'', type = ''keyword''\<rparr>],
        values = [[JStr ''POINT (1 2)'', JNum 5]]\<rparr> = Inr fc \<and>
     k < length (features fc) \<and>
     own (properties (features fc ! k)) ''count'' \<noteq> None \<and>
     own (properties (features fc ! k)) ''extra'' = None"
proof -
  let ?cols = "[\<lparr>name = ''geom'', type = ''geo_point''\<rparr>, \<lparr>name = ''count'', type = ''long''\<rparr>,
                   \<lparr>name = ''extra'', type = ''keyword''\<rparr>]"
  let ?hit = "[JStr ''POINT (1 2)'', JNum 5]"
  let ?resp = "\<lparr>columns = ?cols, values = [?hit]\<rparr>"
  let ?loc = "locateGeometryColumn example_geometry_name"
  have h1: "?loc (columns ?resp) = Inr 0"
    by (simp add: locateGeometryColumn_def example_geometry_name_def)
  have h2: "\<forall>row\<in>set (values ?resp). length row \<le> length (columns ?resp)"
    by simp
  have h3: "0 < length (values ?resp)" by simp
  have h4: "?hit = values ?resp ! 0" by simp
  have h5: "truthy (js_index ?hit 0) \<and> \<not> isl (example_parse (js_index ?hit 0))"
    by (simp add: js_index_def example_parse_def)
  note t = C10_row_length_bounds_lookup [where getGeometryColumnIndex = ?loc and resp = ?resp
      and parse = example_parse and hit = ?hit and i = 0 and gi = 0,
      OF h1 h2 h3 h4, THEN conjunct2, THEN mp, OF h5]
  then obtain fc k where
    c: "convertToGeoJson ?loc example_parse ?resp = Inr fc" "k < length (features fc)"
    and n: "\<forall>n. n \<noteq> ''__proto__'' \<longrightarrow>
                (own (properties (features fc ! k)) n \<noteq> None) =
                (\<exists>j<length ?hit. j \<noteq> 0 \<and> name (columns ?resp ! j) = n)"
    by (elim exE conjE)
  from spec [where x = "''count''", OF n] spec [where x = "''extra''", OF n]
  have "own (properties (features fc ! k)) ''count'' \<noteq> None \<and>
     own (properties (features fc ! k)) ''extra'' = None"
    by (simp add: Ex_less_Suc)
  with c show ?thesis by (intro exI [of _ fc] exI [of _ k]) simp
qed

end
